theory Spec2Isabelle
  imports Complex_Main
begin

section \<open>Tensor entries\<close>

text \<open>
  The module \<^verbatim>\<open>models/layers/spline.py\<close> computes on torch tensors of floating-point
  numbers. An entry is modelled as a real number or one of the three special values of
  IEEE arithmetic. Arithmetic on finite entries is exact (rounding and overflow are not
  modelled, and there is no negative zero: a zero divisor counts as \<open>+0\<close>); arithmetic
  that involves a special value, or a division by zero, follows IEEE 754. The theorems
  below are stated with these operations themselves, and their proofs use of the finite
  arithmetic only what rounding preserves (\<open>a - a = 0\<close>, products with 0 and 1, the order
  of the knots); no equation between differently computed finite values is claimed.
  A Boolean entry (the result of a comparison) is represented by its numeric value,
  \<open>Fin 1\<close> for True and \<open>Fin 0\<close> for False. Whether a tensor is Boolean or floating
  point is its \<open>dtype\<close>, which is kept beside the entries where the module's behaviour
  depends on it.
\<close>

datatype fl = Fin real | PInf | NInf | NaN

fun fneg :: "fl \<Rightarrow> fl" where
  "fneg (Fin a) = Fin (- a)"
| "fneg PInf = NInf"
| "fneg NInf = PInf"
| "fneg NaN = NaN"

fun fadd :: "fl \<Rightarrow> fl \<Rightarrow> fl" where
  "fadd (Fin a) (Fin b) = Fin (a + b)"
| "fadd NaN _ = NaN"
| "fadd _ NaN = NaN"
| "fadd PInf NInf = NaN"
| "fadd NInf PInf = NaN"
| "fadd PInf _ = PInf"
| "fadd _ PInf = PInf"
| "fadd NInf _ = NInf"
| "fadd _ NInf = NInf"

definition fsub :: "fl \<Rightarrow> fl \<Rightarrow> fl" where
  "fsub a b = fadd a (fneg b)"

fun fmul :: "fl \<Rightarrow> fl \<Rightarrow> fl" where
  "fmul (Fin a) (Fin b) = Fin (a * b)"
| "fmul NaN _ = NaN"
| "fmul _ NaN = NaN"
| "fmul (Fin a) PInf = (if a = 0 then NaN else if 0 < a then PInf else NInf)"
| "fmul (Fin a) NInf = (if a = 0 then NaN else if 0 < a then NInf else PInf)"
| "fmul PInf (Fin b) = (if b = 0 then NaN else if 0 < b then PInf else NInf)"
| "fmul NInf (Fin b) = (if b = 0 then NaN else if 0 < b then NInf else PInf)"
| "fmul PInf PInf = PInf"
| "fmul PInf NInf = NInf"
| "fmul NInf PInf = NInf"
| "fmul NInf NInf = PInf"

fun fdiv :: "fl \<Rightarrow> fl \<Rightarrow> fl" where
  "fdiv (Fin a) (Fin b) =
     (if b \<noteq> 0 then Fin (a / b) else if a = 0 then NaN else if 0 < a then PInf else NInf)"
| "fdiv NaN _ = NaN"
| "fdiv _ NaN = NaN"
| "fdiv (Fin a) PInf = Fin 0"
| "fdiv (Fin a) NInf = Fin 0"
| "fdiv PInf (Fin b) = (if 0 \<le> b then PInf else NInf)"
| "fdiv NInf (Fin b) = (if 0 \<le> b then NInf else PInf)"
| "fdiv PInf PInf = NaN"
| "fdiv PInf NInf = NaN"
| "fdiv NInf PInf = NaN"
| "fdiv NInf NInf = NaN"

text \<open>Comparisons: every comparison with NaN is false.\<close>

fun flt :: "fl \<Rightarrow> fl \<Rightarrow> bool" where
  "flt (Fin a) (Fin b) = (a < b)"
| "flt NaN _ = False"
| "flt _ NaN = False"
| "flt _ NInf = False"
| "flt PInf _ = False"
| "flt NInf _ = True"
| "flt _ PInf = True"

fun fge :: "fl \<Rightarrow> fl \<Rightarrow> bool" where
  "fge (Fin a) (Fin b) = (b \<le> a)"
| "fge NaN _ = False"
| "fge _ NaN = False"
| "fge PInf _ = True"
| "fge _ NInf = True"
| "fge NInf _ = False"
| "fge _ PInf = False"

definition b2f :: "bool \<Rightarrow> fl" where
  "b2f b = (if b then Fin 1 else Fin 0)"

text \<open>
  \<^verbatim>\<open>torch.nan_to_num\<close> with its default arguments: NaN becomes 0, and an infinity
  becomes the largest (smallest) finite value of the dtype; \<open>float_max\<close> is that value
  for torch's default dtype, float32.
\<close>

definition float_max :: real where
  "float_max = (2 - 1 / 2 ^ 23) * 2 ^ 127"

fun nan_to_num1 :: "fl \<Rightarrow> fl" where
  "nan_to_num1 (Fin a) = Fin a"
| "nan_to_num1 NaN = Fin 0"
| "nan_to_num1 PInf = Fin float_max"
| "nan_to_num1 NInf = Fin (- float_max)"

fun is_finite :: "fl \<Rightarrow> bool" where
  "is_finite (Fin a) = True"
| "is_finite _ = False"

section \<open>Tensors, slices and broadcasting\<close>

text \<open>
  A tensor is the nested list of its entries, outermost axis first. (An axis of extent 0
  hides the extents of the axes to its right; the operations below then have nothing to
  check there.) A torch operation that raises is a result \<open>Inl\<close>: \<open>ShapeMismatch\<close> and
  \<open>DtypeMismatch\<close> are torch's RuntimeError for extents that do not fit and for a dtype an
  operation does not accept.
\<close>

type_synonym tensor1 = "fl list"
type_synonym tensor2 = "fl list list"
type_synonym tensor3 = "fl list list list"

datatype error = ShapeMismatch | IndexError | DtypeMismatch

datatype dtype = BoolT | FloatT

definition and_then :: "error + 'a \<Rightarrow> ('a \<Rightarrow> error + 'b) \<Rightarrow> error + 'b" where
  "and_then m f = (case m of Inl e \<Rightarrow> Inl e | Inr v \<Rightarrow> f v)"

fun collect :: "(error + 'a) list \<Rightarrow> error + 'a list" where
  "collect [] = Inr []"
| "collect (m # ms) = and_then m (\<lambda>v. and_then (collect ms) (\<lambda>vs. Inr (v # vs)))"

text \<open>
  Python's \<^verbatim>\<open>xs[lo:hi]\<close>: a missing bound is \<open>None\<close>, a negative bound counts from
  the end, and a bound out of range is clamped.
\<close>

definition clamp_index :: "nat \<Rightarrow> int \<Rightarrow> nat" where
  "clamp_index n i = (if i < 0 then nat (max 0 (int n + i)) else min n (nat i))"

definition slice :: "int option \<Rightarrow> int option \<Rightarrow> 'a list \<Rightarrow> 'a list" where
  "slice lo hi xs =
     (let n = length xs;
          a = (case lo of None \<Rightarrow> 0 | Some i \<Rightarrow> clamp_index n i);
          b = (case hi of None \<Rightarrow> n | Some j \<Rightarrow> clamp_index n j)
      in drop a (take b xs))"

text \<open>
  \<^verbatim>\<open>t[:, :, lo:hi]\<close>, \<^verbatim>\<open>t[:, :, i]\<close>, \<^verbatim>\<open>t.unsqueeze(dim=2)\<close> and \<^verbatim>\<open>t.unsqueeze(dim=0)\<close>.
  The module selects only index 0 of the last axis of \<^verbatim>\<open>x.unsqueeze(dim=2)\<close>, and index 0
  of the first axis of \<^verbatim>\<open>grid.unsqueeze(dim=0)\<close>; both axes have extent 1, so neither
  selection can be out of range.
\<close>

definition slice3 :: "int option \<Rightarrow> int option \<Rightarrow> tensor3 \<Rightarrow> tensor3" where
  "slice3 lo hi t = map (map (slice lo hi)) t"

definition select_last :: "tensor3 \<Rightarrow> nat \<Rightarrow> tensor2" where
  "select_last t i = map (map (\<lambda>r. r ! i)) t"

definition unsqueeze2 :: "tensor2 \<Rightarrow> tensor3" where
  "unsqueeze2 t = map (map (\<lambda>v. [v])) t"

definition unsqueeze0 :: "tensor2 \<Rightarrow> tensor3" where
  "unsqueeze0 t = [t]"

text \<open>
  Broadcasting along one axis: extents must be equal, or one of them 1 (that operand is
  then repeated); any other pair of extents is torch's RuntimeError.
\<close>

definition bcast :: "('a \<Rightarrow> 'b \<Rightarrow> error + 'c) \<Rightarrow> 'a list \<Rightarrow> 'b list \<Rightarrow> error + 'c list" where
  "bcast f xs ys =
     (if length xs = length ys then collect (map2 f xs ys)
      else if length xs = 1 then collect (map (f (hd xs)) ys)
      else if length ys = 1 then collect (map (\<lambda>x. f x (hd ys)) xs)
      else Inl ShapeMismatch)"

definition bop3 :: "(fl \<Rightarrow> fl \<Rightarrow> fl) \<Rightarrow> tensor3 \<Rightarrow> tensor3 \<Rightarrow> error + tensor3" where
  "bop3 f = bcast (bcast (bcast (\<lambda>a b. Inr (f a b))))"

definition t_add :: "tensor3 \<Rightarrow> tensor3 \<Rightarrow> error + tensor3" where
  "t_add = bop3 fadd"

definition t_sub :: "tensor3 \<Rightarrow> tensor3 \<Rightarrow> error + tensor3" where
  "t_sub = bop3 fsub"

definition t_mul :: "tensor3 \<Rightarrow> tensor3 \<Rightarrow> error + tensor3" where
  "t_mul = bop3 fmul"

definition t_div :: "tensor3 \<Rightarrow> tensor3 \<Rightarrow> error + tensor3" where
  "t_div = bop3 fdiv"

definition t_ge :: "tensor3 \<Rightarrow> tensor3 \<Rightarrow> error + tensor3" where
  "t_ge = bop3 (\<lambda>a b. b2f (fge a b))"

definition t_lt :: "tensor3 \<Rightarrow> tensor3 \<Rightarrow> error + tensor3" where
  "t_lt = bop3 (\<lambda>a b. b2f (flt a b))"

definition nan_to_num :: "tensor3 \<Rightarrow> tensor3" where
  "nan_to_num t = map (map (map nan_to_num1)) t"

section \<open>The basis evaluator\<close>

text \<open>
  \<^verbatim>\<open>B_batch(x, grid, k=0, extend=True, device='cpu')\<close>. The order \<open>k\<close> is a natural
  number (a negative \<open>k\<close> never reaches the base case). The recursive call passes
  neither \<open>extend\<close> nor \<open>device\<close>, so \<open>extend\<close> is True there.
\<close>

fun B_batch :: "tensor2 \<Rightarrow> tensor2 \<Rightarrow> nat \<Rightarrow> bool \<Rightarrow> error + tensor3" where
  "B_batch x grid k extend =
    (let x = unsqueeze2 x; grid = unsqueeze0 grid in
     and_then
      (if k = 0 then
         and_then (t_ge x (slice3 None (Some (- 1)) grid)) (\<lambda>lo.
         and_then (t_lt x (slice3 (Some 1) None grid)) (\<lambda>hi.
         t_mul lo hi))
       else
         and_then (B_batch (select_last x 0) (grid ! 0) (k - 1) True) (\<lambda>B_km1.
         and_then (t_sub x (slice3 None (Some (- (int k + 1))) grid)) (\<lambda>n1.
         and_then (t_sub (slice3 (Some (int k)) (Some (- 1)) grid)
                         (slice3 None (Some (- (int k + 1))) grid)) (\<lambda>d1.
         and_then (t_div n1 d1) (\<lambda>q1.
         and_then (t_mul q1 (slice3 None (Some (- 1)) B_km1)) (\<lambda>term1.
         and_then (t_sub (slice3 (Some (int k + 1)) None grid) x) (\<lambda>n2.
         and_then (t_sub (slice3 (Some (int k + 1)) None grid)
                         (slice3 (Some 1) (Some (- int k)) grid)) (\<lambda>d2.
         and_then (t_div n2 d2) (\<lambda>q2.
         and_then (t_mul q2 (slice3 (Some 1) None B_km1)) (\<lambda>term2.
         t_add term1 term2))))))))))
      (\<lambda>value. Inr (nan_to_num value)))"

declare B_batch.simps [simp del]

text \<open>
  The dtype of the tensor that \<open>B_batch\<close> returns for floating-point \<open>x\<close> and \<open>grid\<close>.
  At order 0 the value is a product of two comparisons (line 31), a \<^verbatim>\<open>torch.bool\<close>
  tensor, and \<^verbatim>\<open>torch.nan_to_num\<close> returns a Boolean tensor as it is (line 39): nothing
  casts it to a number. At order \<open>k > 0\<close> the value is built from quotients of
  floating-point tensors (lines 35 and 36) and is floating point.
\<close>

definition B_batch_dtype :: "nat \<Rightarrow> dtype" where
  "B_batch_dtype k = (if k = 0 then BoolT else FloatT)"

section \<open>The curve evaluator\<close>

text \<open>
  \<^verbatim>\<open>torch.einsum('ijk,jlk->ijl', b, c)\<close>: entry \<open>(i, j, l)\<close> of the result is the sum over
  \<open>k\<close> of \<open>b[i][j][k] * c[j][l][k]\<close>; two extents under the same letter must be equal,
  or one of them 1. The coefficients are floating point and \<^verbatim>\<open>torch.einsum\<close> does not
  promote its operands: with a Boolean first operand it raises; \<open>dt\<close> is the dtype of the
  first operand. \<^verbatim>\<open>coef.to(device)\<close> does not change the entries.
\<close>

definition fsum :: "tensor1 \<Rightarrow> fl" where
  "fsum vs = foldl fadd (Fin 0) vs"

definition dot :: "tensor1 \<Rightarrow> tensor1 \<Rightarrow> error + fl" where
  "dot u v = and_then (bcast (\<lambda>a b. Inr (fmul a b)) u v) (\<lambda>ps. Inr (fsum ps))"

definition einsum_ijk_jlk :: "dtype \<Rightarrow> tensor3 \<Rightarrow> tensor3 \<Rightarrow> error + tensor3" where
  "einsum_ijk_jlk dt b c =
     (if dt = BoolT then Inl DtypeMismatch
      else collect (map (\<lambda>bi. bcast (\<lambda>bij cj. collect (map (\<lambda>cjl. dot bij cjl) cj)) bi c) b))"

definition coef2curve :: "tensor2 \<Rightarrow> tensor2 \<Rightarrow> tensor3 \<Rightarrow> nat \<Rightarrow> error + tensor3" where
  "coef2curve x_eval grid coef k =
     and_then (B_batch x_eval grid k True) (\<lambda>b_splines.
       einsum_ijk_jlk (B_batch_dtype k) b_splines coef)"

section \<open>The grid extender\<close>

text \<open>
  \<^verbatim>\<open>grid[:, [i]]\<close> is \<open>column grid i\<close> (an IndexError when a row has no such entry),
  \<^verbatim>\<open>torch.cat([a, b], dim=1)\<close> is \<open>cat1 a b\<close>, \<^verbatim>\<open>grid.shape[1]\<close> is \<open>size1 grid\<close>,
  and the \<^verbatim>\<open>for\<close> loop over \<^verbatim>\<open>range(k_extend)\<close> is \<open>extend_loop\<close>.
\<close>

definition py_index :: "'a list \<Rightarrow> int \<Rightarrow> error + 'a" where
  "py_index xs i =
     (if 0 \<le> i \<and> i < int (length xs) then Inr (xs ! nat i)
      else if i < 0 \<and> - int (length xs) \<le> i then Inr (xs ! nat (int (length xs) + i))
      else Inl IndexError)"

definition column :: "tensor2 \<Rightarrow> int \<Rightarrow> error + tensor2" where
  "column t i = collect (map (\<lambda>r. and_then (py_index r i) (\<lambda>v. Inr [v])) t)"

definition bop2 :: "(fl \<Rightarrow> fl \<Rightarrow> fl) \<Rightarrow> tensor2 \<Rightarrow> tensor2 \<Rightarrow> error + tensor2" where
  "bop2 f = bcast (bcast (\<lambda>a b. Inr (f a b)))"

definition div_scalar :: "tensor2 \<Rightarrow> int \<Rightarrow> tensor2" where
  "div_scalar t c = map (map (\<lambda>v. fdiv v (Fin (of_int c)))) t"

definition cat1 :: "tensor2 \<Rightarrow> tensor2 \<Rightarrow> error + tensor2" where
  "cat1 a b = (if length a = length b then Inr (map2 (@) a b) else Inl ShapeMismatch)"

definition size1 :: "'a list list \<Rightarrow> nat" where
  "size1 t = (case t of [] \<Rightarrow> 0 | r # _ \<Rightarrow> length r)"

fun extend_loop :: "nat \<Rightarrow> tensor2 \<Rightarrow> tensor2 \<Rightarrow> error + tensor2" where
  "extend_loop 0 h grid = Inr grid"
| "extend_loop (Suc i) h grid =
     and_then (column grid 0) (\<lambda>first.
     and_then (bop2 fsub first h) (\<lambda>left.
     and_then (cat1 left grid) (\<lambda>grid.
     and_then (column grid (- 1)) (\<lambda>lst.
     and_then (bop2 fadd lst h) (\<lambda>right.
     and_then (cat1 grid right) (\<lambda>grid.
     extend_loop i h grid))))))"

definition extend_grid :: "tensor2 \<Rightarrow> nat \<Rightarrow> error + tensor2" where
  "extend_grid grid k_extend =
     and_then (column grid (- 1)) (\<lambda>lst.
     and_then (column grid 0) (\<lambda>first.
     and_then (bop2 fsub lst first) (\<lambda>d.
     extend_loop k_extend (div_scalar d (int (size1 grid) - 1)) grid)))"

section \<open>The coefficient solver\<close>

text \<open>
  \<^verbatim>\<open>curve2coef(x_eval, y_eval, grid, k)\<close>. \<^verbatim>\<open>torch.linalg.lstsq\<close> is a library routine
  and not part of the module: it is the parameter \<open>lstsq\<close>, which takes the driver, the
  batch of matrices and the batch of right-hand sides and returns the \<^verbatim>\<open>.solution\<close>
  tensor, or raises. It accepts floating-point matrices only: on a Boolean matrix the call
  raises before any driver runs, which the model writes out. \<open>lstsq_matrix\<close> is the matrix
  argument the code builds (lines 88 to 94) and \<open>lstsq_target\<close> the right-hand side
  (line 96).
  \<^verbatim>\<open>t.permute(1,0,2)\<close>, \<^verbatim>\<open>t.permute(1,2,0)\<close>, \<^verbatim>\<open>t[:,None,:,:]\<close>, \<^verbatim>\<open>t.unsqueeze(dim=3)\<close>,
  \<^verbatim>\<open>t.expand(a,b,c,d)\<close> and \<^verbatim>\<open>t[:,:,:,0]\<close> are the functions below; \<^verbatim>\<open>expand\<close> keeps an
  axis whose requested extent is \<open>-1\<close> or its own, repeats an axis of extent 1, and
  raises otherwise.

  The driver is chosen by \<^verbatim>\<open>device == 'cpu'\<close>, where \<^verbatim>\<open>device = mat.device\<close> is a
  \<^verbatim>\<open>torch.device\<close> object and \<^verbatim>\<open>'cpu'\<close> a string. \<open>py_eq\<close> is Python's \<^verbatim>\<open>==\<close> on these
  two kinds of value: a \<^verbatim>\<open>torch.device\<close> is equal to a \<^verbatim>\<open>torch.device\<close> only, never to a
  string. The argument \<open>dev\<close> names the device the tensors are on.
\<close>

datatype pyobj = PyStr string | PyDevice string

fun py_eq :: "pyobj \<Rightarrow> pyobj \<Rightarrow> bool" where
  "py_eq (PyStr a) (PyStr b) = (a = b)"
| "py_eq (PyDevice a) (PyDevice b) = (a = b)"
| "py_eq _ _ = False"

type_synonym tensor4 = "fl list list list list"

definition size2 :: "'a list list list \<Rightarrow> nat" where
  "size2 t = (case t of [] \<Rightarrow> 0 | m # _ \<Rightarrow> size1 m)"

definition permute_102 :: "tensor3 \<Rightarrow> tensor3" where
  "permute_102 t = map (\<lambda>j. map (\<lambda>i. t ! i ! j) [0..<length t]) [0..<size1 t]"

definition permute_120 :: "tensor3 \<Rightarrow> tensor3" where
  "permute_120 t =
     map (\<lambda>j. map (\<lambda>l. map (\<lambda>i. t ! i ! j ! l) [0..<length t]) [0..<size2 t]) [0..<size1 t]"

definition unsqueeze1 :: "tensor3 \<Rightarrow> tensor4" where
  "unsqueeze1 t = map (\<lambda>m. [m]) t"

definition unsqueeze3 :: "tensor3 \<Rightarrow> tensor4" where
  "unsqueeze3 t = map (map (map (\<lambda>v. [v]))) t"

definition expand_axis :: "int \<Rightarrow> 'a list \<Rightarrow> error + 'a list" where
  "expand_axis n xs =
     (if n = - 1 \<or> n = int (length xs) then Inr xs
      else if length xs = 1 \<and> 0 \<le> n then Inr (replicate (nat n) (hd xs))
      else Inl ShapeMismatch)"

definition expand4 :: "int \<Rightarrow> int \<Rightarrow> int \<Rightarrow> int \<Rightarrow> tensor4 \<Rightarrow> error + tensor4" where
  "expand4 a b c d t =
     and_then (expand_axis a t) (\<lambda>t.
     collect (map (\<lambda>u. and_then (expand_axis b u) (\<lambda>u.
     collect (map (\<lambda>v. and_then (expand_axis c v) (\<lambda>v.
     collect (map (expand_axis d) v))) u))) t))"

definition select_last4 :: "tensor4 \<Rightarrow> int \<Rightarrow> error + tensor3" where
  "select_last4 t i = collect (map (\<lambda>u. collect (map (\<lambda>v. collect (map (\<lambda>r. py_index r i) v)) u)) t)"

definition lstsq_matrix :: "tensor2 \<Rightarrow> tensor3 \<Rightarrow> tensor2 \<Rightarrow> nat \<Rightarrow> error + tensor4" where
  "lstsq_matrix x_eval y_eval grid k =
     (let batch = length x_eval; in_dim = size1 x_eval; out_dim = size2 y_eval;
          n_coef = int (size1 grid) - int k - 1
      in and_then (B_batch x_eval grid k True) (\<lambda>mat.
         expand4 (int in_dim) (int out_dim) (int batch) n_coef (unsqueeze1 (permute_102 mat))))"

definition lstsq_target :: "tensor3 \<Rightarrow> tensor4" where
  "lstsq_target y_eval = unsqueeze3 (permute_120 y_eval)"

definition curve2coef ::
  "(string \<Rightarrow> tensor4 \<Rightarrow> tensor4 \<Rightarrow> error + tensor4) \<Rightarrow> string \<Rightarrow>
   tensor2 \<Rightarrow> tensor3 \<Rightarrow> tensor2 \<Rightarrow> nat \<Rightarrow> error + tensor3" where
  "curve2coef lstsq dev x_eval y_eval grid k =
     and_then (lstsq_matrix x_eval y_eval grid k) (\<lambda>mat.
     let y_eval = lstsq_target y_eval;
         device = PyDevice dev;
         driver = (if py_eq device (PyStr ''cpu'') then ''gelsy'' else ''gels'')
     in and_then (if B_batch_dtype k = BoolT then Inl DtypeMismatch else lstsq driver mat y_eval)
          (\<lambda>solution. select_last4 solution 0))"

section \<open>Shapes and the entry-wise reading of the recursion\<close>

text \<open>
  The notions below are not part of the module; the theorems are stated with them.
  \<open>shape2 t m n\<close> and \<open>shape3 t a b c\<close> say that a nested list is a tensor of that
  shape. \<open>compat\<close>, \<open>bd\<close> and \<open>bix\<close> are torch's broadcasting rule for one axis:
  when two extents may meet, the extent of the result, and the index read in an operand
  of extent \<open>m\<close>. \<open>tab3 a b c f\<close> is the tensor of shape \<open>(a, b, c)\<close> with entries
  \<open>f i j l\<close>.
\<close>

definition shape2 :: "'a list list \<Rightarrow> nat \<Rightarrow> nat \<Rightarrow> bool" where
  "shape2 t m n \<longleftrightarrow> length t = m \<and> list_all (\<lambda>r. length r = n) t"

definition shape3 :: "'a list list list \<Rightarrow> nat \<Rightarrow> nat \<Rightarrow> nat \<Rightarrow> bool" where
  "shape3 t a b c \<longleftrightarrow> length t = a \<and> list_all (\<lambda>m. shape2 m b c) t"

definition compat :: "nat \<Rightarrow> nat \<Rightarrow> bool" where
  "compat m n \<longleftrightarrow> m = n \<or> m = 1 \<or> n = 1"

definition bd :: "nat \<Rightarrow> nat \<Rightarrow> nat" where
  "bd m n = (if m = 1 then n else m)"

definition bix :: "nat \<Rightarrow> nat \<Rightarrow> nat" where
  "bix m i = (if m = 1 then 0 else i)"

definition tab3 :: "nat \<Rightarrow> nat \<Rightarrow> nat \<Rightarrow> (nat \<Rightarrow> nat \<Rightarrow> nat \<Rightarrow> 'a) \<Rightarrow> 'a list list list" where
  "tab3 a b c f = map (\<lambda>i. map (\<lambda>j. map (\<lambda>l. f i j l) [0..<c]) [0..<b]) [0..<a]"

text \<open>
  The Cox--de Boor combination as the specification writes it, for sample \<open>xv\<close>, knot
  row \<open>t\<close>, order \<open>k\<close> and basis index \<open>i\<close>, from the two order-\<open>(k - 1)\<close> values
  \<open>b0\<close> (index \<open>i\<close>) and \<open>b1\<close> (index \<open>i + 1\<close>).
\<close>

definition cox_de_boor :: "fl \<Rightarrow> tensor1 \<Rightarrow> nat \<Rightarrow> nat \<Rightarrow> fl \<Rightarrow> fl \<Rightarrow> fl" where
  "cox_de_boor xv t k i b0 b1 =
     fadd (fmul (fdiv (fsub xv (t ! i)) (fsub (t ! (i + k)) (t ! i))) b0)
          (fmul (fdiv (fsub (t ! (i + k + 1)) xv) (fsub (t ! (i + k + 1)) (t ! (i + 1)))) b1)"

text \<open>
  One entry of the tensor that \<open>B_batch\<close> returns, written as a recursion on scalars:
  lemma \<open>B_batch_same\<close> proves that \<open>B_batch\<close> computes exactly these entries.
\<close>

fun basis :: "fl \<Rightarrow> tensor1 \<Rightarrow> nat \<Rightarrow> nat \<Rightarrow> fl" where
  "basis xv t 0 i = nan_to_num1 (fmul (b2f (fge xv (t ! i))) (b2f (flt xv (t ! (i + 1)))))"
| "basis xv t (Suc k) i =
     nan_to_num1
       (fadd (fmul (fdiv (fsub xv (t ! i)) (fsub (t ! (i + Suc k)) (t ! i))) (basis xv t k i))
             (fmul (fdiv (fsub (t ! (i + Suc k + 1)) xv) (fsub (t ! (i + Suc k + 1)) (t ! (i + 1))))
                   (basis xv t k (i + 1))))"

text \<open>
  The invariant of a Grid row in the specification: the knots are finite and
  non-decreasing. \<open>val\<close> reads a finite entry as a real number.
\<close>

fun val :: "fl \<Rightarrow> real" where
  "val (Fin a) = a"
| "val _ = 0"

definition nondecreasing :: "tensor1 \<Rightarrow> bool" where
  "nondecreasing r \<longleftrightarrow> list_all is_finite r \<and> sorted (map val r)"

text \<open>
  The padding as the specification words it: \<open>step g r\<close> is the step
  \<open>(last knot - first knot) / (G - 1)\<close> of a row of \<open>g\<close> knots, and \<open>pad_row h i r\<close>
  prepends, \<open>i\<close> times, one knot at distance \<open>h\<close> before the current first knot and
  appends one at distance \<open>h\<close> after the current last knot.
\<close>

fun pad_row :: "fl \<Rightarrow> nat \<Rightarrow> tensor1 \<Rightarrow> tensor1" where
  "pad_row h 0 r = r"
| "pad_row h (Suc i) r = pad_row h i ((fsub (hd r) h # r) @ [fadd (last r) h])"

definition step :: "nat \<Rightarrow> tensor1 \<Rightarrow> fl" where
  "step g r = fdiv (fsub (last r) (hd r)) (Fin (real g - 1))"

text \<open>\<open>tab4 a b c d f\<close> is the tensor of shape \<open>(a, b, c, d)\<close> with entries \<open>f i j l m\<close>.\<close>

definition tab4 ::
  "nat \<Rightarrow> nat \<Rightarrow> nat \<Rightarrow> nat \<Rightarrow> (nat \<Rightarrow> nat \<Rightarrow> nat \<Rightarrow> nat \<Rightarrow> 'a) \<Rightarrow> 'a list list list list" where
  "tab4 a b c d f = map (\<lambda>i. tab3 b c d (f i)) [0..<a]"

section \<open>Broadcasting on tabulated tensors\<close>

lemma and_then_Inr [simp]: "and_then (Inr v) f = f v"
  by (simp add: and_then_def)

lemma and_then_Inl [simp]: "and_then (Inl e) f = Inl e"
  by (simp add: and_then_def)

lemma collect_map_Inr: "collect (map (\<lambda>x. Inr (h x)) xs) = Inr (map h xs)"
  by (induction xs) simp_all

lemma collect_cong_Inr:
  assumes "\<And>x. x \<in> set xs \<Longrightarrow> g x = Inr (h x)"
  shows "collect (map g xs) = Inr (map h xs)"
proof -
  have e: "map g xs = map (\<lambda>x. Inr (h x)) xs"
    using assms by simp
  show ?thesis
    unfolding e by (rule collect_map_Inr)
qed

lemma map2_upt: "map2 g (map p [0..<m]) (map q [0..<m]) = map (\<lambda>i. g (p i) (q i)) [0..<m]"
  by (rule nth_equalityI) simp_all

lemma bcast_upt:
  assumes c: "compat m n"
    and g: "\<And>i. i < bd m n \<Longrightarrow> g (p (bix m i)) (q (bix n i)) = Inr (h i)"
  shows "bcast g (map p [0..<m]) (map q [0..<n]) = Inr (map h [0..<bd m n])"
proof (cases "m = n")
  case True
  have "collect (map (\<lambda>i. g (p i) (q i)) [0..<n]) = Inr (map h [0..<n])"
  proof (rule collect_cong_Inr)
    fix i assume "i \<in> set [0..<n]"
    then have i: "i < n" by simp
    show "g (p i) (q i) = Inr (h i)"
      using g [of i] i True by (cases "n = 1") (simp_all add: bd_def bix_def)
  qed
  then show ?thesis
    using True by (simp add: bcast_def map2_upt bd_def)
next
  case False
  show ?thesis
  proof (cases "m = 1")
    case True
    have "collect (map (\<lambda>i. g (p 0) (q i)) [0..<n]) = Inr (map h [0..<n])"
    proof (rule collect_cong_Inr)
      fix i assume "i \<in> set [0..<n]"
      then show "g (p 0) (q i) = Inr (h i)"
        using g [of i] True False by (simp add: bd_def bix_def)
    qed
    then show ?thesis
      using True False by (simp add: bcast_def bd_def comp_def)
  next
    case m1: False
    with c False have n1: "n = 1" by (simp add: compat_def)
    have "collect (map (\<lambda>i. g (p i) (q 0)) [0..<m]) = Inr (map h [0..<m])"
    proof (rule collect_cong_Inr)
      fix i assume "i \<in> set [0..<m]"
      then show "g (p i) (q 0) = Inr (h i)"
        using g [of i] m1 n1 by (simp add: bd_def bix_def)
    qed
    then show ?thesis
      using m1 n1 False by (simp add: bcast_def bd_def comp_def)
  qed
qed

lemma bop3_tab3:
  assumes "compat a1 a2" "compat b1 b2" "compat c1 c2"
  shows "bop3 f (tab3 a1 b1 c1 p) (tab3 a2 b2 c2 q) =
         Inr (tab3 (bd a1 a2) (bd b1 b2) (bd c1 c2)
               (\<lambda>i j l. f (p (bix a1 i) (bix b1 j) (bix c1 l)) (q (bix a2 i) (bix b2 j) (bix c2 l))))"
  unfolding bop3_def tab3_def
  by (intro bcast_upt assms refl)

lemma compat_simps [simp]: "compat a a" "compat 1 a" "compat a 1" "compat (Suc 0) a" "compat a (Suc 0)"
  by (simp_all add: compat_def)

lemma bd_simps [simp]: "bd a a = a" "bd 1 a = a" "bd a 1 = a" "bd (Suc 0) a = a" "bd a (Suc 0) = a"
  by (simp_all add: bd_def)

lemma compat_bd [simp]: "compat b s \<Longrightarrow> compat (bd b s) s" "compat b s \<Longrightarrow> compat s (bd b s)"
  "compat b s \<Longrightarrow> compat (bd b s) b" "compat b s \<Longrightarrow> compat b (bd b s)"
  by (auto simp add: compat_def bd_def)

lemma bd_bd [simp]: "compat b s \<Longrightarrow> bd (bd b s) s = bd b s" "compat b s \<Longrightarrow> bd s (bd b s) = bd b s"
 "compat b s \<Longrightarrow> bd (bd b s) b = bd b s" "compat b s \<Longrightarrow> bd b (bd b s) = bd b s" 
  by (auto simp add: compat_def bd_def)

lemma bd_comm: "compat b s \<Longrightarrow> bd s b = bd b s"
  by (auto simp add: compat_def bd_def)

lemma slice_upt:
  "slice lo hi (map f [0..<c]) =
     (let a = (case lo of None \<Rightarrow> 0 | Some i \<Rightarrow> clamp_index c i);
          b = (case hi of None \<Rightarrow> c | Some j \<Rightarrow> clamp_index c j)
      in map (\<lambda>l. f (l + a)) [0..<b - a])"
proof -
  have "drop a (take b (map f [0..<c])) = map (\<lambda>l. f (l + a)) [0..<b - a]" if "b \<le> c" for a b
  proof -
    have "drop a (take b (map f [0..<c])) = map f [a..<b]"
      using that by (simp add: take_map drop_map)
    also have "[a..<b] = map (\<lambda>l. l + a) [0..<b - a]"
      by (cases "a \<le> b") (simp_all add: map_add_upt)
    finally show ?thesis
      by (simp add: comp_def)
  qed
  moreover have "clamp_index c j \<le> c" for j
    by (auto simp add: clamp_index_def)
  ultimately show ?thesis
    by (simp add: slice_def Let_def split: option.splits)
qed

lemma slice3_tab3:
  "slice3 lo hi (tab3 a b c f) =
     (let a' = (case lo of None \<Rightarrow> 0 | Some i \<Rightarrow> clamp_index c i);
          b' = (case hi of None \<Rightarrow> c | Some j \<Rightarrow> clamp_index c j)
      in tab3 a b (b' - a') (\<lambda>i j l. f i j (l + a')))"
  by (simp add: slice3_def tab3_def slice_upt Let_def comp_def)

lemma shape2_tab: "shape2 t m n \<Longrightarrow> t = map (\<lambda>i. map (\<lambda>j. t ! i ! j) [0..<n]) [0..<m]"
  by (intro nth_equalityI) (auto simp add: shape2_def list_all_length)

lemma unsqueeze2_tab3: "shape2 x a b \<Longrightarrow> unsqueeze2 x = tab3 a b 1 (\<lambda>i j l. x ! i ! j)"
  unfolding unsqueeze2_def tab3_def
  by (subst shape2_tab [of x a b], assumption) (simp add: comp_def)

lemma unsqueeze0_tab3: "shape2 g s n \<Longrightarrow> unsqueeze0 g = tab3 1 s n (\<lambda>i j l. g ! j ! l)"
  unfolding unsqueeze0_def tab3_def
  by (subst shape2_tab [of g s n], assumption) simp

lemma select_last_unsqueeze2 [simp]: "select_last (unsqueeze2 x) 0 = x"
  by (simp add: select_last_def unsqueeze2_def comp_def)

lemma unsqueeze0_nth [simp]: "unsqueeze0 g ! 0 = g"
  by (simp add: unsqueeze0_def)

lemma shape3_tab3 [simp]: "shape3 (tab3 a b c f) a b c"
  by (simp add: shape3_def shape2_def tab3_def list_all_length)

lemma tab3_nth: "i < a \<Longrightarrow> j < b \<Longrightarrow> l < c \<Longrightarrow> tab3 a b c f ! i ! j ! l = f i j l"
  by (simp add: tab3_def)

lemma tab3_cong:
  "(\<And>i j l. i < a \<Longrightarrow> j < b \<Longrightarrow> l < c \<Longrightarrow> f i j l = g i j l) \<Longrightarrow> tab3 a b c f = tab3 a b c g"
  by (simp add: tab3_def)

lemma nan_to_num_tab3: "nan_to_num (tab3 a b c f) = tab3 a b c (\<lambda>i j l. nan_to_num1 (f i j l))"
  by (simp add: nan_to_num_def tab3_def comp_def)

lemma tab3_eqI:
  assumes "c = c'" "\<And>i j l. i < a \<Longrightarrow> j < b \<Longrightarrow> l < c \<Longrightarrow> f i j l = g i j l" 
  shows "tab3 a b c f = tab3 a b c' g"
  using assms by (simp add: tab3_def)

lemma slice3_butlast: "slice3 None (Some (- 1)) (tab3 a b c f) = tab3 a b (c - 1) f"
  unfolding slice3_tab3 Let_def by (rule tab3_eqI) (auto simp add: clamp_index_def)

lemma slice3_tl: "slice3 (Some 1) None (tab3 a b c f) = tab3 a b (c - 1) (\<lambda>i j l. f i j (l + 1))"
  unfolding slice3_tab3 Let_def by (rule tab3_eqI) (auto simp add: clamp_index_def)

lemma slice3_lower: "slice3 None (Some (- (int k + 1))) (tab3 a b c f) = tab3 a b (c - (k + 1)) f"
  unfolding slice3_tab3 Let_def by (rule tab3_eqI) (auto simp add: clamp_index_def)

lemma slice3_upper: 
  "slice3 (Some (int k)) (Some (- 1)) (tab3 a b c f) = tab3 a b (c - (k + 1)) (\<lambda>i j l. f i j (l + k))"
  unfolding slice3_tab3 Let_def by (rule tab3_eqI) (auto simp add: clamp_index_def)

lemma slice3_upper1: 
  "slice3 (Some (int k + 1)) None (tab3 a b c f) = tab3 a b (c - (k + 1)) (\<lambda>i j l. f i j (l + (k + 1)))"
  unfolding slice3_tab3 Let_def by (rule tab3_eqI) (auto simp add: clamp_index_def nat_add_distrib)

lemma slice3_lower1: 
  "0 < k \<Longrightarrow> slice3 (Some 1) (Some (- int k)) (tab3 a b c f) = tab3 a b (c - (k + 1)) (\<lambda>i j l. f i j (l + 1))"
  unfolding slice3_tab3 Let_def by (rule tab3_eqI) (auto simp add: clamp_index_def)

lemma bix_less [simp]: "i < n \<Longrightarrow> bix n i = i"
  by (auto simp add: bix_def)

lemma bix_1 [simp]: "bix 1 i = 0" "bix (Suc 0) i = 0"
  by (auto simp add: bix_def)

lemma bix_idem [simp]: "bix n (bix n i) = bix n i"
  by (simp add: bix_def)

lemma bix_bd: "compat b s \<Longrightarrow> j < bd b s \<Longrightarrow> bix s (bix (bd b s) j) = bix s j"
   "compat b s \<Longrightarrow> j < bd b s \<Longrightarrow> bix b (bix (bd b s) j) = bix b j"
  by (auto simp add: bix_def bd_def compat_def)

lemma B_batch_0_tab:
  assumes "shape2 x a b" "shape2 grid s n" "compat b s"
  shows "B_batch x grid 0 e =
         Inr (tab3 a (bd b s) (n - 1) (\<lambda>i j l.
            nan_to_num1 (fmul (b2f (fge (x ! i ! bix b j) (grid ! bix s j ! l)))
                              (b2f (flt (x ! i ! bix b j) (grid ! bix s j ! (l + 1)))))))"
  apply (subst B_batch.simps)
  apply (simp only: Let_def select_last_unsqueeze2 unsqueeze0_nth if_True
         unsqueeze2_tab3 [OF assms(1)] unsqueeze0_tab3 [OF assms(2)] slice3_butlast slice3_tl)
  apply (simp add: t_ge_def t_lt_def t_mul_def bop3_tab3 assms(3) nan_to_num_tab3)
  apply (rule tab3_eqI)
   apply (simp_all add: bix_bd assms(3))
  done

lemma B_batch_step_tab:
  assumes "shape2 x a b" "shape2 grid s n" "compat b s" "k \<noteq> 0"
    and W: "B_batch x grid (k - 1) True = Inr (tab3 a (bd b s) (n - k) W)"
  shows "B_batch x grid k e =
         Inr (tab3 a (bd b s) (n - (k + 1)) (\<lambda>i j l.
            nan_to_num1
              (fadd (fmul (fdiv (fsub (x ! i ! bix b j) (grid ! bix s j ! l))
                                (fsub (grid ! bix s j ! (l + k)) (grid ! bix s j ! l)))
                          (W i j l))
                    (fmul (fdiv (fsub (grid ! bix s j ! (l + (k + 1))) (x ! i ! bix b j))
                                (fsub (grid ! bix s j ! (l + (k + 1))) (grid ! bix s j ! (l + 1))))
                          (W i j (l + 1))))))"
proof -
  have k: "0 < k" "(k = 0) = False"
    using assms(4) by simp_all
  have c: "compat s b" "bd s b = bd b s"
    using assms(3) by (auto simp add: compat_def bd_def)
  show ?thesis
  apply (subst B_batch.simps)
  apply (simp only: Let_def select_last_unsqueeze2 unsqueeze0_nth k if_False W and_then_Inr)
  apply (simp only: unsqueeze2_tab3 [OF assms(1)] unsqueeze0_tab3 [OF assms(2)] slice3_butlast slice3_tl
          slice3_lower slice3_upper slice3_upper1 slice3_lower1 [OF k(1)])
  apply (simp add: t_sub_def t_div_def t_add_def t_mul_def bop3_tab3 assms(3) c nan_to_num_tab3)
  apply (rule tab3_eqI)
   apply (simp_all add: bix_bd assms(3))
  done
qed

lemma B_batch_tab:
  assumes "shape2 x a b" "shape2 grid s n" "compat b s"
  shows "B_batch x grid k e =
         Inr (tab3 a (bd b s) (n - (k + 1)) (\<lambda>i j l. basis (x ! i ! bix b j) (grid ! bix s j) k l))"
proof (induction k arbitrary: e)
  case 0
  show ?case
    by (simp add: B_batch_0_tab [OF assms])
next
  case (Suc k)
  have W: "B_batch x grid (Suc k - 1) True =
         Inr (tab3 a (bd b s) (n - Suc k) (\<lambda>i j l. basis (x ! i ! bix b j) (grid ! bix s j) k l))"
    using Suc [of True] by simp
  show ?case
    by (simp add: B_batch_step_tab [OF assms _ W] add.commute)
qed

lemma B_batch_same:
  assumes "shape2 x n s" "shape2 grid s g"
  shows "B_batch x grid k e =
         Inr (tab3 n s (g - (k + 1)) (\<lambda>a j i. basis (x ! a ! j) (grid ! j) k i))"
proof -
  have "tab3 n s (g - (k + 1)) (\<lambda>i j l. basis (x ! i ! bix s j) (grid ! bix s j) k l) =
        tab3 n s (g - (k + 1)) (\<lambda>a j i. basis (x ! a ! j) (grid ! j) k i)"
    by (rule tab3_eqI) simp_all
  then show ?thesis
    using B_batch_tab [OF assms compat_simps(1), of k e] by simp
qed

section \<open>Facts about entries\<close>

lemma nan_to_num1_finite: "is_finite v \<Longrightarrow> nan_to_num1 v = v"
  by (cases v) simp_all

lemma is_finite_nan_to_num1 [simp]: "is_finite (nan_to_num1 v)"
  by (cases v) simp_all

lemma is_finite_basis [simp]: "is_finite (basis xv t k i)"
  by (cases k) simp_all

lemma fadd_NaN_right [simp]: "fadd v NaN = NaN"
  by (cases v) simp_all

lemma zero_divisor_term [simp]: "fmul (fdiv v (Fin 0)) (Fin 0) = NaN"
  by (cases v) simp_all

lemma fsub_Fin [simp]: "fsub (Fin a) (Fin b) = Fin (a - b)"
  by (simp add: fsub_def)

lemma indicator_empty: "fmul (b2f (fge v (Fin t))) (b2f (flt v (Fin t))) = Fin 0"
  by (cases v) (simp_all add: b2f_def)

lemma basis_zero_span:
  assumes "sorted ts"
  shows "i + Suc k < length ts \<Longrightarrow> ts ! (i + Suc k) = ts ! i \<Longrightarrow> basis xv (map Fin ts) k i = Fin 0"
proof (induction k arbitrary: i)
  case 0
  then show ?case
    by (simp add: indicator_empty)
next
  case (Suc k)
  have "ts ! i \<le> ts ! (i + Suc k)" "ts ! (i + Suc k) \<le> ts ! (i + Suc (Suc k))"
    using assms Suc.prems(1) by (simp_all add: sorted_nth_mono)
  with Suc.prems have e: "ts ! (i + Suc k) = ts ! i"
    by simp
  with Suc.IH [of i] Suc.prems(1) have "basis xv (map Fin ts) k i = Fin 0"
    by simp
  with e Suc.prems(1) show ?case
    by simp
qed


section \<open>Claims about the basis evaluator\<close>

text \<open>
  Claim C10. The \<open>extend\<close> argument of \<open>B_batch\<close> has no effect: for every \<open>x\<close>,
  \<open>grid\<close> and \<open>k\<close>, the call with \<open>extend = True\<close> returns what the call with
  \<open>extend = False\<close> returns (the same tensor, or the same error). The body never reads
  the argument.
\<close>

theorem B_batch_extend_unused: "B_batch x grid k True = B_batch x grid k False"
  unfolding B_batch.simps [of x grid k True] B_batch.simps [of x grid k False] ..

text \<open>
  Claim C1, as amended. The samples are sample-major: for \<open>x\<close> of shape \<open>(N, S)\<close>
  (\<open>N\<close> samples for each of \<open>S\<close> splines), a grid of shape \<open>(S, G)\<close> and every order
  \<open>k\<close>, \<open>B_batch\<close> returns a tensor of shape \<open>(N, S, C)\<close> with \<open>C = G - k - 1\<close> basis
  functions (none when \<open>G \<le> k + 1\<close>), the basis index being the last axis.
\<close>

theorem B_batch_shape:
  assumes "shape2 x n s" "shape2 grid s g"
  shows "\<exists>V. B_batch x grid k extend = Inr V \<and> shape3 V n s (g - (k + 1))"
  by (simp add: B_batch_same [OF assms])

theorem B_batch_shape_witness:
  "shape2 [[Fin (1/2)], [Fin (3/2)]] 2 1 \<and> shape2 [[Fin 0, Fin 1, Fin 2, Fin 3]] 1 4 \<and>
   (\<exists>V. B_batch [[Fin (1/2)], [Fin (3/2)]] [[Fin 0, Fin 1, Fin 2, Fin 3]] 1 True = Inr V \<and>
        shape3 V 2 1 (4 - (1 + 1)))"
  using B_batch_shape [of "[[Fin (1/2)], [Fin (3/2)]]" 2 1 "[[Fin 0, Fin 1, Fin 2, Fin 3]]" 4 1 True]
  by (simp add: shape2_def)

text \<open>
  The claim as the specification states it (\<open>x\<close> of shape \<open>(S, N)\<close>, result of shape
  \<open>(S, G + k - 1, N)\<close>) fails for one spline (\<open>S = 1\<close>) with \<open>N = 2\<close> samples on
  \<open>G = 4\<close> knots at order \<open>k = 1\<close>: the result has shape \<open>(1, 2, 2)\<close>, not \<open>(1, 4, 2)\<close>.
\<close>

theorem B_batch_shape_counterexample:
  "B_batch [[Fin (1/2), Fin (3/2)]] [[Fin 0, Fin 1, Fin 2, Fin 3]] 1 True =
     Inr [[[Fin (1/2), Fin 0], [Fin (1/2), Fin (1/2)]]] \<and>
   \<not> shape3 [[[Fin (1/2), Fin 0], [Fin (1/2), Fin (1/2)]]] 1 (4 + 1 - 1) 2"
  by code_simp

text \<open>
  Claim C2, as amended. For \<open>x\<close> of shape \<open>(N, S)\<close>, a grid of shape \<open>(S, G)\<close> and
  \<open>k > 0\<close>, every order-\<open>k\<close> value that \<open>B_batch\<close> returns is \<open>nan_to_num\<close> of the
  Cox--de Boor combination of the two neighbouring order-\<open>(k - 1)\<close> values, and these
  are the values \<open>B_batch\<close> returns for the same \<open>x\<close> and the same grid at order
  \<open>k - 1\<close>. So the value is the combination itself whenever the combination is finite.
\<close>

theorem B_batch_recursion:
  assumes "shape2 x n s" "shape2 grid s g" "0 < k"
  shows "\<exists>V W. B_batch x grid k extend = Inr V \<and> B_batch x grid (k - 1) True = Inr W \<and>
     (\<forall>a<n. \<forall>j<s. \<forall>i<g - (k + 1).
        V ! a ! j ! i =
          nan_to_num1 (cox_de_boor (x ! a ! j) (grid ! j) k i (W ! a ! j ! i) (W ! a ! j ! (i + 1))) \<and>
        (is_finite (cox_de_boor (x ! a ! j) (grid ! j) k i (W ! a ! j ! i) (W ! a ! j ! (i + 1))) \<longrightarrow>
         V ! a ! j ! i = cox_de_boor (x ! a ! j) (grid ! j) k i (W ! a ! j ! i) (W ! a ! j ! (i + 1))))"
proof -
  obtain k' where k: "k = Suc k'"
    using assms(3) by (cases k) simp_all
  have "i < g - (k' + 1) \<and> i + 1 < g - (k' + 1)" if "i < g - (k + 1)" for i
    using that k by arith
  then show ?thesis
    unfolding k by (simp add: B_batch_same [OF assms(1,2)] tab3_nth cox_de_boor_def nan_to_num1_finite)
qed

theorem B_batch_recursion_witness:
  "shape2 [[Fin (1/2)]] 1 1 \<and> shape2 [[Fin 0, Fin 1, Fin 2]] 1 3 \<and> (0::nat) < 1 \<and>
   (\<exists>V W. B_batch [[Fin (1/2)]] [[Fin 0, Fin 1, Fin 2]] 1 True = Inr V \<and>
          B_batch [[Fin (1/2)]] [[Fin 0, Fin 1, Fin 2]] (1 - 1) True = Inr W \<and>
          V ! 0 ! 0 ! 0 = cox_de_boor (Fin (1/2)) [Fin 0, Fin 1, Fin 2] 1 0 (W ! 0 ! 0 ! 0) (W ! 0 ! 0 ! 1))"
proof -
  let ?x = "[[Fin (1/2)]]" and ?g = "[[Fin 0, Fin 1, Fin 2]]"
  have h: "shape2 ?x 1 1" "shape2 ?g 1 3" "(0::nat) < 1"
    by (simp_all add: shape2_def)
  have w: "B_batch ?x ?g (1 - 1) True = Inr [[[Fin 1, Fin 0]]]"
    by code_simp
  have f: "is_finite (cox_de_boor (Fin (1/2)) [Fin 0, Fin 1, Fin 2] 1 0 (Fin 1) (Fin 0))"
    by code_simp
  from B_batch_recursion [OF h, of True] w f h show ?thesis
    by auto
qed

text \<open>
  On a grid with a repeated knot the claim as stated (the value \<^emph>\<open>equals\<close> the
  combination) fails: for the sample \<open>1/2\<close> and the knots \<open>0, 0, 1\<close> at order 1 the
  combination is NaN, and the value returned is 0.
\<close>

theorem B_batch_recursion_counterexample:
  "B_batch [[Fin (1/2)]] [[Fin 0, Fin 0, Fin 1]] 1 True = Inr [[[Fin 0]]] \<and>
   B_batch [[Fin (1/2)]] [[Fin 0, Fin 0, Fin 1]] 0 True = Inr [[[Fin 0, Fin 1]]] \<and>
   cox_de_boor (Fin (1/2)) [Fin 0, Fin 0, Fin 1] 1 0 (Fin 0) (Fin 1) = NaN"
  by code_simp

lemma nondecreasing_row:
  assumes "nondecreasing r"
  shows "r = map Fin (map val r)" and "sorted (map val r)"
proof -
  have "v = Fin (val v)" if "is_finite v" for v
    using that by (cases v) simp_all
  then show "r = map Fin (map val r)"
    using assms by (intro nth_equalityI) (simp_all add: nondecreasing_def list_all_length)
  show "sorted (map val r)"
    using assms by (simp add: nondecreasing_def)
qed

lemma basis_zero_divisor:
  assumes r: "nondecreasing r" and i: "i + Suc k < length r"
    and d: "fsub (r ! (i + Suc k)) (r ! i) = Fin 0"
  shows "basis xv r k i = Fin 0"
proof -
  let ?ts = "map val r"
  have e: "r = map Fin ?ts"
    by (rule nondecreasing_row(1) [OF r])
  have "fsub (Fin (?ts ! (i + Suc k))) (Fin (?ts ! i)) = Fin 0"
    using d i by (subst (asm) (1 2) e) simp
  then have "?ts ! (i + Suc k) = ?ts ! i"
    by simp
  then have "basis xv (map Fin ?ts) k i = Fin 0"
    using i by (intro basis_zero_span [OF nondecreasing_row(2) [OF r]]) simp_all
  then show ?thesis
    using e by simp
qed

text \<open>
  Claim C5, as amended. For every \<open>x\<close> of shape \<open>(N, S)\<close>, every grid of shape \<open>(S, G)\<close>
  and every \<open>k\<close>, the tensor that \<open>B_batch\<close> returns has no NaN and no infinite entry, and
  the replacement (NaN by 0, an infinity by the largest finite value of its sign) is
  made after each level's computation, not only at the top level: for every order
  \<open>k' \<le> k\<close> the tensor of order \<open>k'\<close> has no NaN and no infinite entry, and for \<open>k' > 0\<close> it
  is \<open>nan_to_num\<close> of the Cox--de Boor combination of the already replaced tensor of
  order \<open>k' - 1\<close>. On a row of finite, non-decreasing knots every entry of order
  \<open>k' > 0\<close> one of whose two divisors \<open>t\<^bsub>i+k'\<^esub> - t\<^bsub>i\<^esub>\<close>, \<open>t\<^bsub>i+k'+1\<^esub> - t\<^bsub>i+1\<^esub>\<close> is zero is
  exactly 0.
\<close>

theorem B_batch_degenerate:
  assumes "shape2 x n s" "shape2 grid s g"
  shows "(\<exists>V. B_batch x grid k extend = Inr V \<and> list_all (list_all (list_all is_finite)) V) \<and>
     (\<forall>k'\<le>k. \<exists>W. B_batch x grid k' True = Inr W \<and>
        list_all (list_all (list_all is_finite)) W \<and>
        (0 < k' \<longrightarrow>
           (\<exists>U. B_batch x grid (k' - 1) True = Inr U \<and>
              (\<forall>a<n. \<forall>j<s. \<forall>i<g - (k' + 1).
                 W ! a ! j ! i =
                   nan_to_num1 (cox_de_boor (x ! a ! j) (grid ! j) k' i
                                  (U ! a ! j ! i) (U ! a ! j ! (i + 1)))))) \<and>
        (\<forall>a<n. \<forall>j<s. \<forall>i<g - (k' + 1).
           0 < k' \<and> nondecreasing (grid ! j) \<and>
           (fsub (grid ! j ! (i + k')) (grid ! j ! i) = Fin 0 \<or>
            fsub (grid ! j ! (i + k' + 1)) (grid ! j ! (i + 1)) = Fin 0)
           \<longrightarrow> W ! a ! j ! i = Fin 0))"
proof -
  let ?T = "\<lambda>m. tab3 n s (g - (m + 1)) (\<lambda>a j i. basis (x ! a ! j) (grid ! j) m i)"
  have same: "B_batch x grid m e = Inr (?T m)" for m e
    by (rule B_batch_same [OF assms])
  have fin: "list_all (list_all (list_all is_finite)) (?T m)" for m
    by (simp add: tab3_def list_all_length)
  have level: "?T (Suc m) ! a ! j ! i =
      nan_to_num1 (cox_de_boor (x ! a ! j) (grid ! j) (Suc m) i (?T m ! a ! j ! i) (?T m ! a ! j ! (i + 1)))"
    if "a < n" "j < s" "i < g - (Suc m + 1)" for m a j i
  proof -
    have "i < g - (m + 1)" "i + 1 < g - (m + 1)"
      using that(3) by arith+
    with that show ?thesis
      by (simp add: tab3_nth cox_de_boor_def)
  qed
  have zero: "?T (Suc m) ! a ! j ! i = Fin 0"
    if a: "a < n" and j: "j < s" and i: "i < g - (Suc m + 1)" and r: "nondecreasing (grid ! j)"
      and d: "fsub (grid ! j ! (i + Suc m)) (grid ! j ! i) = Fin 0 \<or>
              fsub (grid ! j ! (i + Suc m + 1)) (grid ! j ! (i + 1)) = Fin 0"
    for m a j i
  proof -
    have l: "length (grid ! j) = g"
      using assms(2) j by (simp add: shape2_def list_all_length)
    from d have "basis (x ! a ! j) (grid ! j) (Suc m) i = Fin 0"
    proof
      assume "fsub (grid ! j ! (i + Suc m)) (grid ! j ! i) = Fin 0"
      moreover from this have "basis (x ! a ! j) (grid ! j) m i = Fin 0"
        using i l by (intro basis_zero_divisor [OF r]) simp_all
      ultimately show ?thesis
        by simp
    next
      assume e: "fsub (grid ! j ! (i + Suc m + 1)) (grid ! j ! (i + 1)) = Fin 0"
      then have "basis (x ! a ! j) (grid ! j) m (i + 1) = Fin 0"
        using i l by (intro basis_zero_divisor [OF r]) simp_all
      with e show ?thesis
        by simp
    qed
    with a j i show ?thesis
      by (simp add: tab3_nth)
  qed
  have "\<exists>W. B_batch x grid k' True = Inr W \<and>
        list_all (list_all (list_all is_finite)) W \<and>
        (0 < k' \<longrightarrow>
           (\<exists>U. B_batch x grid (k' - 1) True = Inr U \<and>
              (\<forall>a<n. \<forall>j<s. \<forall>i<g - (k' + 1).
                 W ! a ! j ! i =
                   nan_to_num1 (cox_de_boor (x ! a ! j) (grid ! j) k' i
                                  (U ! a ! j ! i) (U ! a ! j ! (i + 1)))))) \<and>
        (\<forall>a<n. \<forall>j<s. \<forall>i<g - (k' + 1).
           0 < k' \<and> nondecreasing (grid ! j) \<and>
           (fsub (grid ! j ! (i + k')) (grid ! j ! i) = Fin 0 \<or>
            fsub (grid ! j ! (i + k' + 1)) (grid ! j ! (i + 1)) = Fin 0)
           \<longrightarrow> W ! a ! j ! i = Fin 0)" for k'
  proof (cases k')
    case 0
    show ?thesis
      unfolding 0 by (intro exI [of _ "?T 0"] conjI same fin) simp_all
  next
    case (Suc m)
    have lower: "\<exists>U. B_batch x grid (Suc m - 1) True = Inr U \<and>
        (\<forall>a<n. \<forall>j<s. \<forall>i<g - (Suc m + 1).
           ?T (Suc m) ! a ! j ! i =
             nan_to_num1 (cox_de_boor (x ! a ! j) (grid ! j) (Suc m) i
                            (U ! a ! j ! i) (U ! a ! j ! (i + 1))))"
    proof (intro exI [of _ "?T m"] conjI allI impI)
      show "B_batch x grid (Suc m - 1) True = Inr (?T m)"
        unfolding diff_Suc_1 by (rule same)
    next
      fix a j i
      assume "a < n" "j < s" "i < g - (Suc m + 1)"
      then show "?T (Suc m) ! a ! j ! i =
          nan_to_num1 (cox_de_boor (x ! a ! j) (grid ! j) (Suc m) i
                         (?T m ! a ! j ! i) (?T m ! a ! j ! (i + 1)))"
        by (rule level)
    qed
    have degenerate: "\<forall>a<n. \<forall>j<s. \<forall>i<g - (Suc m + 1).
           0 < Suc m \<and> nondecreasing (grid ! j) \<and>
           (fsub (grid ! j ! (i + Suc m)) (grid ! j ! i) = Fin 0 \<or>
            fsub (grid ! j ! (i + Suc m + 1)) (grid ! j ! (i + 1)) = Fin 0)
           \<longrightarrow> ?T (Suc m) ! a ! j ! i = Fin 0"
      using zero by blast
    show ?thesis
      unfolding Suc using same [of "Suc m" True] fin [of "Suc m"] lower degenerate by blast
  qed
  then show ?thesis
    using same [of k extend] fin [of k] by blast
qed

theorem B_batch_degenerate_witness:
  "shape2 [[Fin (1/2)]] 1 1 \<and> shape2 [[Fin 0, Fin 0, Fin 1, Fin 2]] 1 4 \<and>
   nondecreasing [Fin 0, Fin 0, Fin 1, Fin 2] \<and>
   (\<exists>V U. B_batch [[Fin (1/2)]] [[Fin 0, Fin 0, Fin 1, Fin 2]] 2 True = Inr V \<and>
          B_batch [[Fin (1/2)]] [[Fin 0, Fin 0, Fin 1, Fin 2]] 1 True = Inr U \<and>
          list_all (list_all (list_all is_finite)) V \<and>
          list_all (list_all (list_all is_finite)) U \<and>
          U ! 0 ! 0 ! 0 = Fin 0 \<and>
          V ! 0 ! 0 ! 0 =
            nan_to_num1 (cox_de_boor (Fin (1/2)) [Fin 0, Fin 0, Fin 1, Fin 2] 2 0
                           (U ! 0 ! 0 ! 0) (U ! 0 ! 0 ! 1)) \<and>
          V ! 0 ! 0 ! 0 = Fin (3/8))"
proof -
  let ?x = "[[Fin (1/2)]]" and ?g = "[[Fin 0, Fin 0, Fin 1, Fin 2]]"
  have h: "shape2 ?x 1 1" "shape2 ?g 1 4"
    by (simp_all add: shape2_def)
  have r: "nondecreasing [Fin 0, Fin 0, Fin 1, Fin 2]"
    by (simp add: nondecreasing_def)
  note all = B_batch_degenerate [OF h, of 2 True, THEN conjunct2, rule_format]
  from all [of 2] obtain V U where
    V: "B_batch ?x ?g 2 True = Inr V" "list_all (list_all (list_all is_finite)) V"
    and U: "B_batch ?x ?g (2 - 1) True = Inr U"
    and VU: "\<forall>a<1. \<forall>j<1. \<forall>i<4 - (2 + 1). V ! a ! j ! i =
              nan_to_num1 (cox_de_boor (?x ! a ! j) (?g ! j) 2 i (U ! a ! j ! i) (U ! a ! j ! (i + 1)))"
    by auto
  from all [of 1] obtain W where
    W: "B_batch ?x ?g 1 True = Inr W" "list_all (list_all (list_all is_finite)) W"
    and Z: "\<forall>a<1. \<forall>j<1. \<forall>i<4 - (1 + 1).
           0 < (1::nat) \<and> nondecreasing (?g ! j) \<and>
           (fsub (?g ! j ! (i + 1)) (?g ! j ! i) = Fin 0 \<or>
            fsub (?g ! j ! (i + 1 + 1)) (?g ! j ! (i + 1)) = Fin 0)
           \<longrightarrow> W ! a ! j ! i = Fin 0"
    by auto
  have WU: "W = U"
    using U W by simp
  have z: "U ! 0 ! 0 ! 0 = Fin 0"
    using Z [rule_format, of 0 0 0] r unfolding WU by simp
  have u1: "U ! 0 ! 0 ! 1 = Fin (1/2)"
  proof -
    have "B_batch ?x ?g 1 True = Inr [[[Fin 0, Fin (1/2)]]]"
      by code_simp
    with W WU show ?thesis
      by simp
  qed
  have v: "V ! 0 ! 0 ! 0 =
      nan_to_num1 (cox_de_boor (Fin (1/2)) [Fin 0, Fin 0, Fin 1, Fin 2] 2 0 (U ! 0 ! 0 ! 0) (U ! 0 ! 0 ! 1))"
    using VU [rule_format, of 0 0 0] by simp
  have "nan_to_num1 (cox_de_boor (Fin (1/2)) [Fin 0, Fin 0, Fin 1, Fin 2] 2 0 (Fin 0) (Fin (1/2))) = Fin (3/8)"
    by code_simp
  with v z u1 have "V ! 0 ! 0 ! 0 = Fin (3/8)"
    by simp
  with h r V W WU z v show ?thesis
    by auto
qed

text \<open>
  The claim as stated, for every grid with a repeated knot, fails where the knots are
  not in order: on the knots \<open>0, 2, 0, 4, 4\<close> at order 2 the first entry has the zero
  divisor \<open>t\<^bsub>2\<^esub> - t\<^bsub>0\<^esub>\<close> and a nonzero lower-order factor, so it is an infinity before the
  replacement and the largest finite value after it, not 0.
\<close>

theorem B_batch_degenerate_counterexample:
  "B_batch [[Fin (1/2)]] [[Fin 0, Fin 2, Fin 0, Fin 4, Fin 4]] 2 True =
     Inr [[[Fin float_max, Fin (- (21/32))]]] \<and>
   fsub ([Fin 0, Fin 2, Fin 0, Fin 4, Fin 4] ! (0 + 2)) ([Fin 0, Fin 2, Fin 0, Fin 4, Fin 4] ! 0) = Fin 0 \<and>
   Fin float_max \<noteq> Fin 0"
  by code_simp

text \<open>
  Claim C7, as amended. For \<open>k = 0\<close>, \<open>x\<close> of shape \<open>(N, S)\<close> and a grid of shape
  \<open>(S, G)\<close>, \<open>B_batch\<close> returns the indicator bases in a tensor of shape \<open>(N, S, G - 1)\<close>:
  entry \<open>(n, s, i)\<close> is 1 if \<open>grid[s][i] \<le> x[n][s] < grid[s][i+1]\<close> and 0 otherwise. In
  particular a sample equal to the last grid point gives 0 in the top interval.
\<close>

theorem B_batch_order0:
  assumes "shape2 x n s" "shape2 grid s g"
  shows "\<exists>V. B_batch x grid 0 extend = Inr V \<and> shape3 V n s (g - 1) \<and>
     (\<forall>a<n. \<forall>j<s. \<forall>i<g - 1.
        V ! a ! j ! i = (if fge (x ! a ! j) (grid ! j ! i) \<and> flt (x ! a ! j) (grid ! j ! (i + 1))
                         then Fin 1 else Fin 0)) \<and>
     (\<forall>a<n. \<forall>j<s. 2 \<le> g \<and> x ! a ! j = grid ! j ! (g - 1) \<longrightarrow> V ! a ! j ! (g - 2) = Fin 0)"
proof -
  have flt_irrefl: "\<not> flt v v" for v
    by (cases v) simp_all
  have "g - 2 < g - 1 \<and> g - 2 + 1 = g - 1" if "2 \<le> g"
    using that by arith
  then show ?thesis
    by (auto simp add: B_batch_same [OF assms] tab3_nth b2f_def flt_irrefl)
qed

theorem B_batch_order0_witness:
  "shape2 [[Fin (1/2), Fin 3]] 1 2 \<and>
   shape2 [[Fin 0, Fin 1, Fin 2, Fin 3], [Fin 0, Fin 1, Fin 2, Fin 3]] 2 4 \<and>
   (\<exists>V. B_batch [[Fin (1/2), Fin 3]] [[Fin 0, Fin 1, Fin 2, Fin 3], [Fin 0, Fin 1, Fin 2, Fin 3]] 0 True
          = Inr V \<and>
        shape3 V 1 2 3 \<and> V ! 0 ! 0 ! 0 = Fin 1 \<and> V ! 0 ! 1 ! 2 = Fin 0)"
proof -
  let ?x = "[[Fin (1/2), Fin 3]]"
  let ?g = "[[Fin 0, Fin 1, Fin 2, Fin 3], [Fin 0, Fin 1, Fin 2, Fin 3]]"
  have h: "shape2 ?x 1 2" "shape2 ?g 2 4"
    by (simp_all add: shape2_def)
  from B_batch_order0 [OF h, of True] obtain V where
    V: "B_batch ?x ?g 0 True = Inr V" "shape3 V 1 2 (4 - 1)"
    and ind: "\<forall>a<1. \<forall>j<2. \<forall>i<4 - 1.
        V ! a ! j ! i = (if fge (?x ! a ! j) (?g ! j ! i) \<and> flt (?x ! a ! j) (?g ! j ! (i + 1))
                         then Fin 1 else Fin 0)"
    and top: "\<forall>a<1. \<forall>j<2. 2 \<le> (4::nat) \<and> ?x ! a ! j = ?g ! j ! (4 - 1) \<longrightarrow> V ! a ! j ! (4 - 2) = Fin 0"
    by blast
  from ind have "V ! 0 ! 0 ! 0 = Fin 1"
    by simp
  moreover from top have "V ! 0 ! 1 ! 2 = Fin 0"
    by simp
  ultimately show ?thesis
    using h V by auto
qed

text \<open>
  The shape \<open>(S, G - 1, N)\<close> of the claim as stated fails for one spline with two
  samples on four knots: the result has shape \<open>(1, 2, 3)\<close>, not \<open>(1, 3, 2)\<close>.
\<close>

theorem B_batch_order0_counterexample:
  "B_batch [[Fin (1/2), Fin (3/2)]] [[Fin 0, Fin 1, Fin 2, Fin 3]] 0 True =
     Inr [[[Fin 1, Fin 0, Fin 0], [Fin 0, Fin 1, Fin 0]]] \<and>
   \<not> shape3 [[[Fin 1, Fin 0, Fin 0], [Fin 0, Fin 1, Fin 0]]] 1 (4 - 1) 2"
  by code_simp

section \<open>Claims about the grid extender\<close>

lemma py_index_first: "r \<noteq> [] \<Longrightarrow> py_index r 0 = Inr (hd r)"
  by (cases r) (simp_all add: py_index_def)

lemma py_index_last: "r \<noteq> [] \<Longrightarrow> py_index r (- 1) = Inr (last r)"
  by (cases r) (simp_all add: py_index_def last_conv_nth nat_diff_distrib')

lemma column_upt:
  assumes "\<And>j. j < s \<Longrightarrow> R j \<noteq> []"
  shows "column (map R [0..<s]) 0 = Inr (map (\<lambda>j. [hd (R j)]) [0..<s])"
    and "column (map R [0..<s]) (- 1) = Inr (map (\<lambda>j. [last (R j)]) [0..<s])"
  unfolding column_def map_map comp_def
  by (rule collect_cong_Inr; simp add: assms py_index_first py_index_last)+

lemma bop2_columns:
  "bop2 f (map (\<lambda>j. [A j]) [0..<s]) (map (\<lambda>j. [B j]) [0..<s]) = Inr (map (\<lambda>j. [f (A j) (B j)]) [0..<s])"
proof -
  have "bcast (bcast (\<lambda>a b. Inr (f a b))) (map (\<lambda>j. [A j]) [0..<s]) (map (\<lambda>j. [B j]) [0..<s]) =
        Inr (map (\<lambda>j. [f (A j) (B j)]) [0..<bd s s])"
    by (rule bcast_upt) (simp_all add: bcast_def)
  then show ?thesis
    by (simp add: bop2_def)
qed

lemma cat1_upt: "cat1 (map A [0..<s]) (map B [0..<s]) = Inr (map (\<lambda>j. A j @ B j) [0..<s])"
  by (simp add: cat1_def map2_upt)

lemma extend_loop_upt:
  "(\<And>j. j < s \<Longrightarrow> R j \<noteq> []) \<Longrightarrow>
   extend_loop i (map (\<lambda>j. [H j]) [0..<s]) (map R [0..<s]) = Inr (map (\<lambda>j. pad_row (H j) i (R j)) [0..<s])"
proof (induction i arbitrary: R)
  case 0
  show ?case by simp
next
  case (Suc i)
  let ?R' = "\<lambda>j. (fsub (hd (R j)) (H j) # R j) @ [fadd (last (R j)) (H j)]"
  have "map (\<lambda>j. [last (fsub (hd (R j)) (H j) # R j)]) [0..<s] = map (\<lambda>j. [last (R j)]) [0..<s]"
    by (simp add: Suc.prems)
  then have l: "column (map (\<lambda>j. fsub (hd (R j)) (H j) # R j) [0..<s]) (- 1) = Inr (map (\<lambda>j. [last (R j)]) [0..<s])"
    using column_upt(2) [of s "\<lambda>j. fsub (hd (R j)) (H j) # R j"]
    by simp
  have "extend_loop (Suc i) (map (\<lambda>j. [H j]) [0..<s]) (map R [0..<s]) =
        extend_loop i (map (\<lambda>j. [H j]) [0..<s]) (map ?R' [0..<s])"
    by (simp add: column_upt(1) Suc.prems bop2_columns cat1_upt l)
  also have "\<dots> = Inr (map (\<lambda>j. pad_row (H j) i (?R' j)) [0..<s])"
    by (rule Suc.IH) simp
  finally show ?case
    by simp
qed

lemma length_pad_row: "length (pad_row h i r) = length r + 2 * i"
  by (induction i arbitrary: r) simp_all

lemma extend_grid_rows:
  assumes "shape2 grid s g" "0 < g"
  shows "extend_grid grid k = Inr (map (\<lambda>j. pad_row (step g (grid ! j)) k (grid ! j)) [0..<s])"
proof -
  have grid: "grid = map (\<lambda>j. grid ! j) [0..<s]"
    using assms(1) by (intro nth_equalityI) (simp_all add: shape2_def)
  have ne: "grid ! j \<noteq> []" if "j < s" for j
    using assms that by (auto simp add: shape2_def list_all_length)
  have sz: "size1 grid = g \<or> s = 0"
    using assms(1) by (cases grid) (auto simp add: size1_def shape2_def)
  have "extend_grid (map (\<lambda>j. grid ! j) [0..<s]) k = 
        Inr (map (\<lambda>j. pad_row (step g (grid ! j)) k (grid ! j)) [0..<s])"
    unfolding extend_grid_def
    apply (simp add: column_upt ne bop2_columns div_scalar_def comp_def extend_loop_upt)
    using sz grid apply (auto simp add: step_def)
    done
  then show ?thesis
    using grid by simp
qed

lemma extend_grid_shape:
  assumes "shape2 grid s g"
  shows "shape2 (map (\<lambda>j. pad_row (H j) k (grid ! j)) [0..<s]) s (g + 2 * k)"
  using assms by (simp add: shape2_def list_all_length length_pad_row)

text \<open>
  Claim C8. For every grid of shape \<open>(S, G)\<close> with \<open>G \<ge> 2\<close> and every \<open>k_extend\<close>,
  \<open>extend_grid\<close> returns a grid of shape \<open>(S, G + 2 * k_extend)\<close> whose row \<open>j\<close> is row
  \<open>j\<close> of the input padded \<open>k_extend\<close> times, each time by one knot at distance \<open>h\<close>
  before the current first knot and one at distance \<open>h\<close> after the current last knot,
  where \<open>h = (last knot - first knot) / (G - 1)\<close> is computed once, from the row as it
  was passed in.
\<close>

theorem extend_grid_padding:
  assumes "shape2 grid s g" "2 \<le> g"
  shows "\<exists>E. extend_grid grid k_extend = Inr E \<and> shape2 E s (g + 2 * k_extend) \<and>
           (\<forall>j<s. E ! j = pad_row (step g (grid ! j)) k_extend (grid ! j))"
proof -
  have "0 < g"
    using assms(2) by simp
  from extend_grid_rows [OF assms(1) this, of k_extend] extend_grid_shape [OF assms(1)]
  show ?thesis
    by simp
qed

theorem extend_grid_padding_witness:
  "shape2 [[Fin 0, Fin 2, Fin 6]] 1 3 \<and> (2::nat) \<le> 3 \<and>
   (\<exists>E. extend_grid [[Fin 0, Fin 2, Fin 6]] 1 = Inr E \<and> shape2 E 1 (3 + 2 * 1) \<and>
        E ! 0 = [Fin (- 3), Fin 0, Fin 2, Fin 6, Fin 9])"
proof -
  have h: "shape2 [[Fin 0, Fin 2, Fin 6]] 1 3" "(2::nat) \<le> 3"
    by (simp_all add: shape2_def)
  have "pad_row (step 3 ([[Fin 0, Fin 2, Fin 6]] ! 0)) 1 ([[Fin 0, Fin 2, Fin 6]] ! 0) =
        [Fin (- 3), Fin 0, Fin 2, Fin 6, Fin 9]"
    by (simp add: step_def)
  with extend_grid_padding [OF h, of 1] h show ?thesis
    by auto
qed

section \<open>Claims about the curve evaluator\<close>

lemma dot_upt:
  assumes "compat m n"
  shows "dot (map p [0..<m]) (map q [0..<n]) =
         Inr (fsum (map (\<lambda>c. fmul (p (bix m c)) (q (bix n c))) [0..<bd m n]))"
  unfolding dot_def
  by (subst bcast_upt [OF assms, where h = "\<lambda>c. fmul (p (bix m c)) (q (bix n c))"]) simp_all

lemma einsum_tab3:
  assumes "compat b1 b2" "compat c1 c2"
  shows "einsum_ijk_jlk FloatT (tab3 a b1 c1 p) (tab3 b2 o' c2 q) =
         Inr (tab3 a (bd b1 b2) o' (\<lambda>i j l.
           fsum (map (\<lambda>c. fmul (p i (bix b1 j) (bix c1 c)) (q (bix b2 j) l (bix c2 c))) [0..<bd c1 c2])))"
  unfolding einsum_ijk_jlk_def tab3_def map_map comp_def
  apply (simp only: dtype.distinct if_False)
  apply (rule collect_cong_Inr)
  apply (rule bcast_upt [OF assms(1)])
  apply (simp only: map_map comp_def)
  apply (rule collect_cong_Inr)
  apply (rule dot_upt [OF assms(2)])
  done

lemma shape3_tab: "shape3 t a b c \<Longrightarrow> t = tab3 a b c (\<lambda>i j l. t ! i ! j ! l)"
  unfolding tab3_def
  by (intro nth_equalityI) (auto simp add: shape3_def shape2_def list_all_length)

lemma coef2curve_tab:
  assumes "shape2 x_eval n s" "shape2 grid s g" "shape3 coef s d (g - (k + 1))" "0 < k"
  shows "coef2curve x_eval grid coef k =
         Inr (tab3 n s d (\<lambda>i j l.
           fsum (map (\<lambda>c. fmul (basis (x_eval ! i ! j) (grid ! j) k c) (coef ! j ! l ! c)) [0..<g - (k + 1)])))"
proof -
  let ?C = "g - (k + 1)"
  let ?B = "tab3 n s ?C (\<lambda>a j i. basis (x_eval ! a ! j) (grid ! j) k i)"
  have "einsum_ijk_jlk FloatT ?B (tab3 s d ?C (\<lambda>i j l. coef ! i ! j ! l)) =
        Inr (tab3 n (bd s s) d (\<lambda>i j l.
           fsum (map (\<lambda>c. fmul (basis (x_eval ! i ! bix s j) (grid ! bix s j) k (bix ?C c))
                              (coef ! bix s j ! l ! bix ?C c)) [0..<bd ?C ?C])))"
    by (rule einsum_tab3) simp_all
  also have "\<dots> = Inr (tab3 n s d (\<lambda>i j l.
           fsum (map (\<lambda>c. fmul (basis (x_eval ! i ! j) (grid ! j) k c) (coef ! j ! l ! c)) [0..<?C])))"
    by (simp, rule tab3_eqI, simp, rule arg_cong [where f = fsum], simp)
  finally show ?thesis
    using shape3_tab [OF assms(3)] assms(4)
    by (simp add: coef2curve_def B_batch_dtype_def B_batch_same [OF assms(1,2)])
qed

text \<open>
  Claim C3, as amended. For \<open>x_eval\<close> of shape \<open>(N, S)\<close>, a grid of shape \<open>(S, G)\<close>,
  coefficients of shape \<open>(S, out_dim, C)\<close> with \<open>C = G - k - 1\<close> (the basis count of
  \<open>B_batch\<close>) and every order \<open>k \<ge> 1\<close>, \<open>coef2curve\<close> returns a tensor \<open>y\<close> of shape
  \<open>(N, S, out_dim)\<close> with \<open>y[n, s, o]\<close> the sum over \<open>c\<close> of \<open>B[n, s, c] * coef[s, o, c]\<close>,
  where \<open>B = B_batch(x_eval, grid, k)\<close>.
\<close>

theorem coef2curve_sum:
  assumes "shape2 x_eval n s" "shape2 grid s g" "shape3 coef s d (g - (k + 1))" "0 < k"
  shows "\<exists>B Y. B_batch x_eval grid k True = Inr B \<and> coef2curve x_eval grid coef k = Inr Y \<and>
           shape3 Y n s d \<and>
           (\<forall>a<n. \<forall>j<s. \<forall>l<d.
              Y ! a ! j ! l = fsum (map (\<lambda>c. fmul (B ! a ! j ! c) (coef ! j ! l ! c)) [0..<g - (k + 1)]))"
proof -
  let ?C = "g - (k + 1)"
  let ?B = "tab3 n s ?C (\<lambda>a j i. basis (x_eval ! a ! j) (grid ! j) k i)"
  let ?Y = "tab3 n s d (\<lambda>i j l.
     fsum (map (\<lambda>c. fmul (basis (x_eval ! i ! j) (grid ! j) k c) (coef ! j ! l ! c)) [0..<?C]))"
  have B: "B_batch x_eval grid k True = Inr ?B"
    by (rule B_batch_same [OF assms(1,2)])
  have Y: "coef2curve x_eval grid coef k = Inr ?Y"
    by (rule coef2curve_tab [OF assms])
  have "?Y ! a ! j ! l = fsum (map (\<lambda>c. fmul (?B ! a ! j ! c) (coef ! j ! l ! c)) [0..<?C])"
    if "a < n" "j < s" "l < d" for a j l
    using that by (simp add: tab3_nth, intro arg_cong [where f = fsum], simp add: tab3_nth)
  with B Y show ?thesis
    by (intro exI [of _ ?B] exI [of _ ?Y]) simp
qed

theorem coef2curve_sum_witness:
  "shape2 [[Fin (1/2), Fin (1/2)], [Fin (3/2), Fin (3/2)]] 2 2 \<and>
   shape2 [[Fin 0, Fin 1, Fin 2, Fin 3], [Fin 0, Fin 1, Fin 2, Fin 3]] 2 4 \<and>
   shape3 [[[Fin 3, Fin 5]], [[Fin 7, Fin 11]]] 2 1 (4 - (1 + 1)) \<and> (0::nat) < 1 \<and>
   (\<exists>B Y. B_batch [[Fin (1/2), Fin (1/2)], [Fin (3/2), Fin (3/2)]]
                  [[Fin 0, Fin 1, Fin 2, Fin 3], [Fin 0, Fin 1, Fin 2, Fin 3]] 1 True = Inr B \<and>
          coef2curve [[Fin (1/2), Fin (1/2)], [Fin (3/2), Fin (3/2)]]
                  [[Fin 0, Fin 1, Fin 2, Fin 3], [Fin 0, Fin 1, Fin 2, Fin 3]]
                  [[[Fin 3, Fin 5]], [[Fin 7, Fin 11]]] 1 = Inr Y \<and>
          shape3 Y 2 2 1 \<and>
          Y ! 1 ! 0 ! 0 = fsum [fmul (B ! 1 ! 0 ! 0) (Fin 3), fmul (B ! 1 ! 0 ! 1) (Fin 5)])"
proof -
  let ?x = "[[Fin (1/2), Fin (1/2)], [Fin (3/2), Fin (3/2)]]"
  let ?g = "[[Fin 0, Fin 1, Fin 2, Fin 3], [Fin 0, Fin 1, Fin 2, Fin 3]]"
  let ?c = "[[[Fin 3, Fin 5]], [[Fin 7, Fin 11]]]"
  have h: "shape2 ?x 2 2" "shape2 ?g 2 4" "shape3 ?c 2 1 (4 - (1 + 1))" "(0::nat) < 1"
    by (simp_all add: shape2_def shape3_def)
  have u: "[0..<4 - (1 + 1)] = [0, 1]"
    by (simp add: upt_rec)
  from coef2curve_sum [OF h] h show ?thesis
    unfolding u by fastforce
qed

text \<open>
  The shape \<open>(S, out_dim, N)\<close> of the claim as stated fails at order 1 for \<open>S = 2\<close>
  splines on four knots, \<open>N = 2\<close> samples and \<open>out_dim = 1\<close>: the result has shape
  \<open>(2, 2, 1)\<close>, not \<open>(2, 1, 2)\<close>.
\<close>

theorem coef2curve_sum_counterexample:
  "coef2curve [[Fin (1/2), Fin (1/2)], [Fin (3/2), Fin (3/2)]]
              [[Fin 0, Fin 1, Fin 2, Fin 3], [Fin 0, Fin 1, Fin 2, Fin 3]]
              [[[Fin 3, Fin 5]], [[Fin 7, Fin 11]]] 1 =
     Inr [[[Fin (3/2)], [Fin (7/2)]], [[Fin 4], [Fin 9]]] \<and>
   \<not> shape3 [[[Fin (3/2)], [Fin (7/2)]], [[Fin 4], [Fin 9]]] 2 1 2"
  by code_simp

section \<open>Claims about the coefficient solver\<close>

lemma size1_tab3: "0 < a \<Longrightarrow> size1 (tab3 a b c f) = b"
  by (simp add: size1_def tab3_def upt_conv_Cons)

lemma size2_tab3: "0 < a \<Longrightarrow> 0 < b \<Longrightarrow> size2 (tab3 a b c f) = c"
  by (simp add: size2_def size1_def tab3_def upt_conv_Cons)

lemma permute_102_tab3: "0 < a \<Longrightarrow> permute_102 (tab3 a b c f) = tab3 b a c (\<lambda>j i l. f i j l)"
  unfolding permute_102_def by (simp add: size1_tab3) (simp add: tab3_def)

lemma unsqueeze1_tab3: "unsqueeze1 (tab3 a b c f) = tab4 a 1 b c (\<lambda>i u j l. f i j l)"
  by (simp add: unsqueeze1_def tab4_def tab3_def)

lemma expand_axis_same: "expand_axis (int (length xs)) xs = Inr xs"
  by (simp add: expand_axis_def)

lemma expand_axis_one: "expand_axis (int b) [u] = Inr (map (\<lambda>j. u) [0..<b])"
  by (simp add: expand_axis_def map_replicate_const)

lemma expand4_tab4:
  assumes "d' = int d \<or> d' = - 1"
  shows "expand4 (int a) (int b) (int c) d' (tab4 a 1 c d f) = Inr (tab4 a b c d (\<lambda>i j. f i 0))"
proof -
  have last: "expand_axis d' (map g [0..<d]) = Inr (map g [0..<d])" for g :: "nat \<Rightarrow> fl"
    using assms by (auto simp add: expand_axis_def)
  have same: "expand_axis (int m) (map g [0..<m]) = Inr (map g [0..<m])" for m and g :: "nat \<Rightarrow> 'b"
    using expand_axis_same [of "map g [0..<m]"] by simp
  show ?thesis
    unfolding expand4_def tab4_def tab3_def
    by (simp add: same expand_axis_one last collect_map_Inr comp_def)
qed

lemma lstsq_matrix_tab:
  assumes x: "shape2 x n s" and grid: "shape2 grid s g" and y: "shape3 y n s d"
    and kg: "k < g" and pos: "0 < n" "0 < s"
  shows "lstsq_matrix x y grid k =
         Inr (tab4 s d n (g - (k + 1)) (\<lambda>j l a c. basis (x ! a ! j) (grid ! j) k c))"
proof -
  define C where "C = g - (k + 1)"
  have "size1 x = s"
    using x pos by (cases x) (simp_all add: shape2_def size1_def)
  moreover have "size1 grid = g"
    using grid pos by (cases grid) (simp_all add: shape2_def size1_def)
  moreover have "size2 y = d"
  proof -
    have "size2 (tab3 n s d (\<lambda>i j l. y ! i ! j ! l)) = d"
      using pos by (simp add: size2_tab3)
    then show ?thesis
      unfolding shape3_tab [OF y, symmetric] .
  qed
  ultimately have sizes: "size1 x = s" "size1 grid = g" "size2 y = d"
    by simp_all
  have nc: "int g - int k - 1 = int C \<or> int g - int k - 1 = - 1"
    using kg by (simp add: C_def)
  have m1: "B_batch x grid k True = Inr (tab3 n s C (\<lambda>a j c. basis (x ! a ! j) (grid ! j) k c))"
    unfolding C_def by (rule B_batch_same [OF x grid])
  have m2: "expand4 (int s) (int d) (int n) (int g - int k - 1)
              (unsqueeze1 (permute_102 (tab3 n s C (\<lambda>a j c. basis (x ! a ! j) (grid ! j) k c)))) =
            Inr (tab4 s d n C (\<lambda>j l a c. basis (x ! a ! j) (grid ! j) k c))"
    unfolding permute_102_tab3 [OF pos(1)] unsqueeze1_tab3 by (rule expand4_tab4 [OF nc])
  show ?thesis
    unfolding C_def [symmetric] using x by (simp add: lstsq_matrix_def sizes m1 m2 shape2_def)
qed

lemma curve2coef_gels:
  "curve2coef lstsq dev x_eval y_eval grid k =
     and_then (lstsq_matrix x_eval y_eval grid k) (\<lambda>mat.
       if k = 0 then Inl DtypeMismatch
       else and_then (lstsq ''gels'' mat (lstsq_target y_eval)) (\<lambda>solution. select_last4 solution 0))"
  by (simp add: curve2coef_def B_batch_dtype_def Let_def)

text \<open>
  Claim C4 fails on the code at order 0. With \<open>N = 1\<close> sample and three knots there are
  \<open>C = 2 > N\<close> unknown coefficients; the matrix handed to the solver is the Boolean
  tensor of \<open>B_batch\<close>, which \<^verbatim>\<open>torch.linalg.lstsq\<close> does not accept, so \<open>curve2coef\<close>
  raises with every solver and on every device instead of returning coefficients.
  (For \<open>k \<ge> 1\<close>, lemma \<open>lstsq_matrix_tab\<close> shows that the system is built with no test
  on \<open>N\<close> against \<open>C\<close>, and lemma \<open>curve2coef_gels\<close> that the driver is \<^verbatim>\<open>'gels'\<close> on every
  device, the comparison of a \<^verbatim>\<open>torch.device\<close> with a string being false, and that the
  solver's result or error is what \<open>curve2coef\<close> returns.)
\<close>

theorem curve2coef_order0_raises:
  "curve2coef lstsq dev [[Fin (1/2)]] [[[Fin 1]]] [[Fin 0, Fin 1, Fin 2]] 0 = Inl DtypeMismatch"
proof -
  have "lstsq_matrix [[Fin (1/2)]] [[[Fin 1]]] [[Fin 0, Fin 1, Fin 2]] 0 = Inr [[[[Fin 1, Fin 0]]]]"
    by code_simp
  then show ?thesis
    by (simp add: curve2coef_gels)
qed

text \<open>
  Claim C6 fails on the code at order 0. For the samples \<open>1/2\<close> and \<open>3/2\<close> on the knots
  \<open>0, 1, 2\<close> the design matrix is the identity (\<open>N = C = 2\<close>, full rank), yet the round
  trip stops at its first step: \<open>coef2curve\<close> raises, because \<^verbatim>\<open>torch.einsum\<close> does not
  accept the Boolean basis tensor of order 0.
\<close>

theorem coef2curve_order0_raises:
  "B_batch [[Fin (1/2)], [Fin (3/2)]] [[Fin 0, Fin 1, Fin 2]] 0 True =
     Inr [[[Fin 1, Fin 0]], [[Fin 0, Fin 1]]] \<and>
   coef2curve [[Fin (1/2)], [Fin (3/2)]] [[Fin 0, Fin 1, Fin 2]] [[[Fin 3, Fin 5]]] 0 =
     Inl DtypeMismatch"
  by code_simp


end
